theory Spec2Isabelle
  imports Complex_Main
begin

section \<open>Data model\<close>

text \<open>
  The rows of \<^verbatim>\<open>src/lib/supabase.ts\<close> (interfaces Category, Transaction, Budget) and of
  the migration. Identifiers are uuid strings. A row's \<^verbatim>\<open>type\<close> is the text
  \<^verbatim>\<open>'expense' | 'income'\<close>. Amounts are \<^verbatim>\<open>numeric(10, 2)\<close> columns that the client
  reads with \<^verbatim>\<open>Number(t.amount)\<close>; they are modelled as exact rationals, so the
  rounding of JavaScript doubles is outside the model. A \<^verbatim>\<open>date\<close> column reaches the
  client as the text \<^verbatim>\<open>YYYY-MM-DD\<close>, modelled by its three numbers. Field names carry
  the prefix of their interface (\<open>c_\<close>, \<open>t_\<close>, \<open>b_\<close>), since the three interfaces share
  them. The optional joined \<^verbatim>\<open>categories\<close> object is only rendered and is left out.
\<close>

type_synonym uuid = string

datatype kind = expense | income

datatype isodate = ISODate int int int

record category =
  c_id :: uuid
  c_user_id :: uuid
  c_name :: string
  c_type :: kind
  c_color :: string
  c_icon :: string

record transaction =
  t_id :: uuid
  t_user_id :: uuid
  t_category_id :: uuid
  t_amount :: rat
  t_description :: string
  t_date :: isodate
  t_type :: kind

record budget =
  b_id :: uuid
  b_user_id :: uuid
  b_category_id :: uuid
  b_amount :: rat
  b_month :: isodate

section \<open>Dashboard: totals and balance\<close>

text \<open>
  \<^verbatim>\<open>.reduce((sum, t) => sum + Number(t.amount), 0)\<close> is a left fold from 0.
\<close>

definition sum_amount :: "transaction list \<Rightarrow> rat" where
  "sum_amount ts = foldl (\<lambda>sum t. sum + t_amount t) 0 ts"

definition totalIncome :: "transaction list \<Rightarrow> rat" where
  "totalIncome transactions = sum_amount (filter (\<lambda>t. t_type t = income) transactions)"

definition totalExpenses :: "transaction list \<Rightarrow> rat" where
  "totalExpenses transactions = sum_amount (filter (\<lambda>t. t_type t = expense) transactions)"

definition balance :: "transaction list \<Rightarrow> rat" where
  "balance transactions = totalIncome transactions - totalExpenses transactions"

text \<open>Example rows: one expense of 50 in category A, dated 2024-01-05.\<close>

definition tx_expense_50 :: transaction where
  "tx_expense_50 = \<lparr>t_id = ''t1'', t_user_id = ''u1'', t_category_id = ''A'', t_amount = 50,
     t_description = ''groceries'', t_date = ISODate 2024 1 5, t_type = expense\<rparr>"

definition tx_income_200 :: transaction where
  "tx_income_200 = \<lparr>t_id = ''t2'', t_user_id = ''u1'', t_category_id = ''S'', t_amount = 200,
     t_description = ''salary'', t_date = ISODate 2024 1 10, t_type = income\<rparr>"

definition tx_expense_30 :: transaction where
  "tx_expense_30 = \<lparr>t_id = ''t3'', t_user_id = ''u1'', t_category_id = ''A'', t_amount = 30,
     t_description = ''lunch'', t_date = ISODate 2024 1 5, t_type = expense\<rparr>"

section \<open>Dates as the client computes them\<close>

text \<open>
  A JavaScript \<^verbatim>\<open>Date\<close> is an instant: milliseconds since 1970-01-01T00:00Z. The
  environment of a render is the instant \<^verbatim>\<open>new Date()\<close> returns and the browser's
  time zone. The zone is a fixed offset of local time from UTC, in minutes (the negation
  of \<^verbatim>\<open>getTimezoneOffset()\<close>): 0 for UTC, 60 for Paris in winter, -300 for New York in
  winter. Daylight-saving changes are outside the model. Each render reads the clock
  several times; the model reads it once.
\<close>

record env =
  now :: int
  utc_offset :: int

definition msPerDay :: int where
  "msPerDay = 86400000"

definition msPerMinute :: int where
  "msPerMinute = 60000"

text \<open>
  Day number of a date of the proleptic Gregorian calendar (days since 1970-01-01), and
  back. Months count from 1. The year runs from March inside the computation, so that the
  leap day is its last day.
\<close>

definition days_from_civil :: "int \<Rightarrow> int \<Rightarrow> int \<Rightarrow> int" where
  "days_from_civil y m d =
     (let y' = (if m \<le> 2 then y - 1 else y);
          era = y' div 400;
          yoe = y' - era * 400;
          mp = (if m > 2 then m - 3 else m + 9);
          doy = (153 * mp + 2) div 5 + d - 1;
          doe = yoe * 365 + yoe div 4 - yoe div 100 + doy
      in era * 146097 + doe - 719468)"

definition civil_from_days :: "int \<Rightarrow> int \<times> int \<times> int" where
  "civil_from_days z =
     (let z' = z + 719468;
          era = z' div 146097;
          doe = z' - era * 146097;
          yoe = (doe - doe div 1460 + doe div 36524 - doe div 146096) div 365;
          doy = doe - (365 * yoe + yoe div 4 - yoe div 100);
          mp = (5 * doy + 2) div 153;
          d = doy - (153 * mp + 2) div 5 + 1;
          m = (if mp < 10 then mp + 3 else mp - 9);
          y = yoe + era * 400
      in (if m \<le> 2 then y + 1 else y, m, d))"

text \<open>
  \<^verbatim>\<open>new Date('YYYY-MM-DD')\<close>: a date-only ISO text is read as midnight UTC of that day.
\<close>

fun Date_parse :: "isodate \<Rightarrow> int" where
  "Date_parse (ISODate y m d) = days_from_civil y m d * msPerDay"

text \<open>
  \<^verbatim>\<open>new Date(year, monthIndex, day)\<close>: midnight local time. The month index counts from 0
  and may run past 11, and the day may be 0 or less; the date is found by counting days
  from the first of the month, so day 0 is the last day of the month before.
\<close>

definition Date_local :: "env \<Rightarrow> int \<Rightarrow> int \<Rightarrow> int \<Rightarrow> int" where
  "Date_local e year monthIndex day =
     (days_from_civil (year + monthIndex div 12) (monthIndex mod 12 + 1) 1 + day - 1) * msPerDay
       - utc_offset e * msPerMinute"

text \<open>The local calendar day an instant falls on, as a day number.\<close>

definition local_day :: "env \<Rightarrow> int \<Rightarrow> int" where
  "local_day e t = (t + utc_offset e * msPerMinute) div msPerDay"

definition getFullYear :: "env \<Rightarrow> int \<Rightarrow> int" where
  "getFullYear e t = fst (civil_from_days (local_day e t))"

definition getMonth :: "env \<Rightarrow> int \<Rightarrow> int" where
  "getMonth e t = fst (snd (civil_from_days (local_day e t))) - 1"

text \<open>
  \<^verbatim>\<open>toISOString().slice(0, 7)\<close> is the year and month in UTC; the client appends
  \<^verbatim>\<open>'-01'\<close> to it.
\<close>

definition currentMonth_first :: "env \<Rightarrow> isodate" where
  "currentMonth_first e =
     (case civil_from_days (now e div msPerDay) of (y, m, d) \<Rightarrow> ISODate y m 1)"

text \<open>
  \<^verbatim>\<open>toDateString()\<close> prints the local calendar day (weekday, month, day, year). Two such
  texts are equal exactly when the local days are, so the text is modelled by the local
  day number.
\<close>

definition toDateString :: "env \<Rightarrow> int \<Rightarrow> int" where
  "toDateString e t = local_day e t"

text \<open>
  \<^verbatim>\<open>d.setDate(d.getDate() - k)\<close> moves a date back \<open>k\<close> local calendar days and keeps
  the time of day; with a fixed offset that is \<open>k\<close> times 24 hours.
\<close>

definition setDate_back :: "int \<Rightarrow> int \<Rightarrow> int" where
  "setDate_back t k = t - k * msPerDay"

text \<open>
  \<^verbatim>\<open>toLocaleDateString('en-US', { weekday: 'short' })\<close>; 1970-01-01 was a Thursday.
\<close>

definition weekday_short :: "env \<Rightarrow> int \<Rightarrow> string" where
  "weekday_short e t =
     [''Thu'', ''Fri'', ''Sat'', ''Sun'', ''Mon'', ''Tue'', ''Wed''] ! nat (local_day e t mod 7)"

section \<open>Stats: this month's expenses by category\<close>

definition monthStart :: "env \<Rightarrow> int" where
  "monthStart e = Date_parse (currentMonth_first e)"

definition monthEnd :: "env \<Rightarrow> int" where
  "monthEnd e = Date_local e (getFullYear e (monthStart e)) (getMonth e (monthStart e) + 1) 0"

definition monthTransactions :: "env \<Rightarrow> transaction list \<Rightarrow> transaction list" where
  "monthTransactions e transactions =
     filter (\<lambda>t. Date_parse (t_date t) \<ge> monthStart e \<and> Date_parse (t_date t) \<le> monthEnd e)
       transactions"

record item =
  category :: category
  total :: rat

text \<open>The \<^verbatim>\<open>.map\<close> step of \<^verbatim>\<open>expensesByCategory\<close>: one total per expense category.\<close>

definition categoryTotal :: "env \<Rightarrow> transaction list \<Rightarrow> category \<Rightarrow> item" where
  "categoryTotal e transactions c =
     \<lparr>category = c,
      total = sum_amount
        (filter (\<lambda>t. t_category_id t = c_id c \<and> t_type t = expense)
           (monthTransactions e transactions))\<rparr>"

definition categoryTotals :: "env \<Rightarrow> category list \<Rightarrow> transaction list \<Rightarrow> item list" where
  "categoryTotals e categories transactions =
     map (categoryTotal e transactions) (filter (\<lambda>c. c_type c = expense) categories)"

text \<open>
  \<^verbatim>\<open>.sort((a, b) => b.total - a.total)\<close> is a stable sort, largest total first: an
  insertion sort on the negated total. \<^verbatim>\<open>.slice(0, 5)\<close> keeps the first five.
\<close>

definition expensesByCategory :: "env \<Rightarrow> category list \<Rightarrow> transaction list \<Rightarrow> item list" where
  "expensesByCategory e categories transactions =
     take 5 (sort_key (\<lambda>i. - total i)
       (filter (\<lambda>i. total i > 0) (categoryTotals e categories transactions)))"

definition totalMonthExpenses :: "env \<Rightarrow> transaction list \<Rightarrow> rat" where
  "totalMonthExpenses e transactions =
     sum_amount (filter (\<lambda>t. t_type t = expense) (monthTransactions e transactions))"

text \<open>
  A JavaScript division never throws: by zero it yields \<^verbatim>\<open>Infinity\<close> or \<^verbatim>\<open>NaN\<close>. The
  model returns \<open>None\<close> for those, and the quotient otherwise.
\<close>

definition js_div :: "rat \<Rightarrow> rat \<Rightarrow> rat option" where
  "js_div a b = (if b = 0 then None else Some (a / b))"

text \<open>
  The panel "Top Expenses This Month": the text "No expenses this month" when the list is
  empty, and otherwise one row per item with
  \<^verbatim>\<open>percentage = (total / totalMonthExpenses) * 100\<close>.
\<close>

record top_row =
  row_item :: item
  percentage :: "rat option"

datatype top_panel = NoExpenses | Rows "top_row list"

definition topExpensesPanel :: "env \<Rightarrow> category list \<Rightarrow> transaction list \<Rightarrow> top_panel" where
  "topExpensesPanel e categories transactions =
     (if length (expensesByCategory e categories transactions) = 0 then NoExpenses
      else Rows (map (\<lambda>i. \<lparr>row_item = i,
                            percentage = map_option (\<lambda>q. q * 100)
                              (js_div (total i) (totalMonthExpenses e transactions))\<rparr>)
                   (expensesByCategory e categories transactions)))"

section \<open>Stats: the last seven days\<close>

definition last30Days :: "env \<Rightarrow> transaction list \<Rightarrow> transaction list" where
  "last30Days e transactions =
     filter (\<lambda>t. Date_parse (t_date t) \<ge> setDate_back (now e) 30) transactions"

record day_entry =
  d_date :: string
  d_expenses :: rat
  d_income :: rat

text \<open>
  The body of \<^verbatim>\<open>Array.from({ length: 7 }, (_, i) => ...)\<close>, over the list the day's
  transactions are taken from (\<^verbatim>\<open>last30Days\<close> in the source).
\<close>

definition dayEntry :: "env \<Rightarrow> transaction list \<Rightarrow> nat \<Rightarrow> day_entry" where
  "dayEntry e source i =
     (let date = setDate_back (now e) (6 - int i);
          dayTransactions =
            filter (\<lambda>t. toDateString e (Date_parse (t_date t)) = toDateString e date) source
      in \<lparr>d_date = weekday_short e date,
          d_expenses = sum_amount (filter (\<lambda>t. t_type t = expense) dayTransactions),
          d_income = sum_amount (filter (\<lambda>t. t_type t = income) dayTransactions)\<rparr>)"

definition dailyData :: "env \<Rightarrow> transaction list \<Rightarrow> day_entry list" where
  "dailyData e transactions = map (dayEntry e (last30Days e transactions)) [0..<7]"

section \<open>BudgetManager: spent against the limit\<close>

definition getSpentAmount :: "env \<Rightarrow> transaction list \<Rightarrow> uuid \<Rightarrow> isodate \<Rightarrow> rat" where
  "getSpentAmount e transactions categoryId budgetMonth =
     (let monthStart' = Date_parse budgetMonth;
          monthEnd' = Date_local e (getFullYear e monthStart') (getMonth e monthStart' + 1) 0
      in sum_amount
           (filter (\<lambda>t. t_category_id t = categoryId \<and> t_type t = expense
                        \<and> Date_parse (t_date t) \<ge> monthStart'
                        \<and> Date_parse (t_date t) \<le> monthEnd')
              transactions))"

text \<open>
  What one budget card shows: the amount spent, \<^verbatim>\<open>percentage\<close> (printed as "% used"),
  the bar's width \<^verbatim>\<open>Math.min(percentage, 100)\<close>, the flag \<^verbatim>\<open>isOverBudget\<close> and, only when
  the flag is set, the line "Over budget by \<^verbatim>\<open>spent - Number(budget.amount)\<close>".
\<close>

record budget_card =
  bc_spent :: rat
  bc_percentage :: "rat option"
  bc_width :: "rat option"
  bc_isOverBudget :: bool
  bc_overBy :: "rat option"

definition budgetCard :: "env \<Rightarrow> transaction list \<Rightarrow> budget \<Rightarrow> budget_card" where
  "budgetCard e transactions b =
     (let spent = getSpentAmount e transactions (b_category_id b) (b_month b);
          percentage' = map_option (\<lambda>q. q * 100) (js_div spent (b_amount b));
          isOverBudget = spent > b_amount b
      in \<lparr>bc_spent = spent,
          bc_percentage = percentage',
          bc_width = map_option (\<lambda>p. min p 100) percentage',
          bc_isOverBudget = isOverBudget,
          bc_overBy = (if isOverBudget then Some (spent - b_amount b) else None)\<rparr>)"

section \<open>The forms\<close>

text \<open>
  Each \<^verbatim>\<open>handleSubmit\<close> awaits one \<^verbatim>\<open>supabase.from(...).insert(...)\<close>. The store is not part
  of the client, so the handler is modelled over what the awaited call resolves to: no
  error, or the store's error. A handler returns the component's state after it ran and
  the callbacks of its parent it called.
\<close>

datatype store_error =
  RlsViolation | NotNullViolation | CheckViolation | ForeignKeyViolation | UniqueViolation

fun message :: "store_error \<Rightarrow> string" where
  "message RlsViolation = ''new row violates row-level security policy''"
| "message NotNullViolation = ''null value violates not-null constraint''"
| "message CheckViolation = ''new row violates check constraint''"
| "message ForeignKeyViolation = ''insert violates foreign key constraint''"
| "message UniqueViolation = ''duplicate key value violates unique constraint''"

datatype callback = OnSuccess | OnUpdate | OnClose

record transaction_form =
  tf_type :: kind
  tf_amount :: string
  tf_description :: string
  tf_categoryId :: string
  tf_date :: string
  tf_loading :: bool
  tf_error :: string

definition TransactionForm_handleSubmit ::
  "store_error option \<Rightarrow> transaction_form \<Rightarrow> transaction_form \<times> callback list" where
  "TransactionForm_handleSubmit submitError st =
     (let st1 = st\<lparr>tf_error := [], tf_loading := True\<rparr>
      in case submitError of
           Some err \<Rightarrow> (st1\<lparr>tf_error := message err, tf_loading := False\<rparr>, [])
         | None \<Rightarrow> (st1, [OnSuccess]))"

text \<open>\<^verbatim>\<open>COLORS[0]\<close> and \<^verbatim>\<open>ICONS[0]\<close> of CategoryManager.\<close>

definition COLORS_0 :: string where
  "COLORS_0 = ''#ef4444''"

definition ICONS_0 :: string where
  "ICONS_0 = ''DollarSign''"

record category_form =
  cf_showForm :: bool
  cf_name :: string
  cf_type :: kind
  cf_color :: string
  cf_icon :: string
  cf_loading :: bool

text \<open>The result of the awaited insert is not bound to a name: the handler never reads it.\<close>

definition CategoryManager_handleSubmit ::
  "store_error option \<Rightarrow> category_form \<Rightarrow> category_form \<times> callback list" where
  "CategoryManager_handleSubmit response st =
     (let st1 = st\<lparr>cf_loading := True\<rparr>
      in (st1\<lparr>cf_name := [], cf_type := expense, cf_color := COLORS_0, cf_icon := ICONS_0,
               cf_loading := False, cf_showForm := False\<rparr>, [OnUpdate]))"

record budget_form =
  bf_showForm :: bool
  bf_categoryId :: string
  bf_amount :: string
  bf_month :: string
  bf_loading :: bool

text \<open>
  \<open>thisMonth\<close> stands for \<^verbatim>\<open>new Date().toISOString().slice(0, 7)\<close>, the text the month
  field is reset to.
\<close>

definition BudgetManager_handleSubmit ::
  "string \<Rightarrow> store_error option \<Rightarrow> budget_form \<Rightarrow> budget_form \<times> callback list" where
  "BudgetManager_handleSubmit thisMonth response st =
     (let st1 = st\<lparr>bf_loading := True\<rparr>
      in (st1\<lparr>bf_categoryId := [], bf_amount := [], bf_month := thisMonth,
               bf_loading := False, bf_showForm := False\<rparr>, [OnUpdate]))"

text \<open>
  What the user sees of a failed submit. TransactionForm renders its \<^verbatim>\<open>error\<close> state when
  it is not empty. CategoryManager and BudgetManager have no error state and render no
  message.
\<close>

definition TransactionForm_shown_error :: "transaction_form \<Rightarrow> string option" where
  "TransactionForm_shown_error st = (if tf_error st = [] then None else Some (tf_error st))"

section \<open>The store: constraints and row-level security\<close>

text \<open>
  The migration enables row-level security on the three tables and creates, for each
  table and each of SELECT, INSERT, UPDATE and DELETE, one policy \<^verbatim>\<open>TO authenticated\<close>
  whose expressions are all \<^verbatim>\<open>auth.uid() = user_id\<close>: SELECT and DELETE have a
  \<^verbatim>\<open>USING\<close> expression, INSERT a \<^verbatim>\<open>WITH CHECK\<close> expression, UPDATE both. The caller is
  \<^verbatim>\<open>auth.uid()\<close>: \<open>Some u\<close> for the signed-in user \<open>u\<close>, \<open>None\<close> for a request that is
  not signed in (such a request does not run as \<^verbatim>\<open>authenticated\<close>, and the comparison
  with a null \<^verbatim>\<open>auth.uid()\<close> is not true either).
\<close>

datatype table_name = Categories | Transactions | Budgets

datatype command = SELECT | INSERT | UPDATE | DELETE

record policy =
  p_table :: table_name
  p_command :: command
  p_using :: bool
  p_with_check :: bool

definition policies_of :: "table_name \<Rightarrow> policy list" where
  "policies_of tbl =
     [\<lparr>p_table = tbl, p_command = SELECT, p_using = True, p_with_check = False\<rparr>,
      \<lparr>p_table = tbl, p_command = INSERT, p_using = False, p_with_check = True\<rparr>,
      \<lparr>p_table = tbl, p_command = UPDATE, p_using = True, p_with_check = True\<rparr>,
      \<lparr>p_table = tbl, p_command = DELETE, p_using = True, p_with_check = False\<rparr>]"

definition policies :: "policy list" where
  "policies = policies_of Categories @ policies_of Transactions @ policies_of Budgets"

text \<open>The one expression of every policy: \<^verbatim>\<open>auth.uid() = user_id\<close>.\<close>

definition uid_is_owner :: "uuid option \<Rightarrow> uuid \<Rightarrow> bool" where
  "uid_is_owner caller user_id = (caller = Some user_id)"

text \<open>
  With row-level security enabled a row passes when some policy of the table for the
  command allows it; with no such policy nothing passes.
\<close>

definition using_ok :: "table_name \<Rightarrow> command \<Rightarrow> uuid option \<Rightarrow> uuid \<Rightarrow> bool" where
  "using_ok tbl cmd caller user_id =
     list_ex (\<lambda>p. p_table p = tbl \<and> p_command p = cmd \<and> p_using p
                  \<and> uid_is_owner caller user_id) policies"

definition check_ok :: "table_name \<Rightarrow> command \<Rightarrow> uuid option \<Rightarrow> uuid \<Rightarrow> bool" where
  "check_ok tbl cmd caller user_id =
     list_ex (\<lambda>p. p_table p = tbl \<and> p_command p = cmd \<and> p_with_check p
                  \<and> uid_is_owner caller user_id) policies"




definition rls_delete ::
  "table_name \<Rightarrow> uuid option \<Rightarrow> ('r \<Rightarrow> uuid) \<Rightarrow> ('r \<Rightarrow> bool) \<Rightarrow> 'r list \<Rightarrow> 'r list" where
  "rls_delete tbl caller owner cond rows =
     filter (\<lambda>r. \<not> (cond r \<and> using_ok tbl DELETE caller (owner r))) rows"

text \<open>
  An INSERT into \<^verbatim>\<open>budgets\<close> of a row with every column given: the policy's check,
  \<^verbatim>\<open>CHECK (amount > 0)\<close>, the primary key, \<^verbatim>\<open>UNIQUE(user_id, category_id, month)\<close>
  and the reference to \<^verbatim>\<open>categories(id)\<close>.
\<close>

definition same_triple :: "budget \<Rightarrow> budget \<Rightarrow> bool" where
  "same_triple x y =
     (b_user_id x = b_user_id y \<and> b_category_id x = b_category_id y \<and> b_month x = b_month y)"

definition budgets_insert ::
  "uuid option \<Rightarrow> category list \<Rightarrow> budget \<Rightarrow> budget list \<Rightarrow> store_error + budget list" where
  "budgets_insert caller categories b rows =
     (if \<not> check_ok Budgets INSERT caller (b_user_id b) then Inl RlsViolation
      else if \<not> b_amount b > 0 then Inl CheckViolation
      else if list_ex (\<lambda>x. b_id x = b_id b) rows then Inl UniqueViolation
      else if list_ex (same_triple b) rows then Inl UniqueViolation
      else if \<not> list_ex (\<lambda>c. c_id c = b_category_id b) categories then Inl ForeignKeyViolation
      else Inr (rows @ [b]))"

text \<open>No two rows of \<^verbatim>\<open>budgets\<close> share owner, category and month.\<close>

fun triples_unique :: "budget list \<Rightarrow> bool" where
  "triples_unique [] = True"
| "triples_unique (b # bs) = (\<not> list_ex (same_triple b) bs \<and> triples_unique bs)"

section \<open>Properties stated of the views\<close>



text \<open>The expense transactions of the month, and what category a transaction points to.\<close>

definition month_expenses :: "env \<Rightarrow> transaction list \<Rightarrow> transaction list" where
  "month_expenses e ts = filter (\<lambda>t. t_type t = expense) (monthTransactions e ts)"



text \<open>
  The seven-day series computed directly over the full transaction list, without the
  thirty-day filter in front.
\<close>

definition dailyData_direct :: "env \<Rightarrow> transaction list \<Rightarrow> day_entry list" where
  "dailyData_direct e transactions = map (dayEntry e transactions) [0..<7]"

text \<open>
  The series as the specification words it: the entry of a day sums the transactions whose
  \<^verbatim>\<open>date\<close> is that calendar day, for the seven days that end on the current local day.
\<close>

fun day_number :: "isodate \<Rightarrow> int" where
  "day_number (ISODate y m d) = days_from_civil y m d"

definition dayEntry_by_calendar_day :: "env \<Rightarrow> transaction list \<Rightarrow> nat \<Rightarrow> day_entry" where
  "dayEntry_by_calendar_day e transactions i =
     (let day = local_day e (now e) - (6 - int i);
          dayTransactions = filter (\<lambda>t. day_number (t_date t) = day) transactions
      in \<lparr>d_date = weekday_short e (setDate_back (now e) (6 - int i)),
          d_expenses = sum_amount (filter (\<lambda>t. t_type t = expense) dayTransactions),
          d_income = sum_amount (filter (\<lambda>t. t_type t = income) dayTransactions)\<rparr>)"

definition dailyData_by_calendar_day :: "env \<Rightarrow> transaction list \<Rightarrow> day_entry list" where
  "dailyData_by_calendar_day e transactions =
     map (dayEntry_by_calendar_day e transactions) [0..<7]"

text \<open>
  The amount spent as the specification words it: the expenses of the category whose
  \<^verbatim>\<open>date\<close> lies in the calendar month of the budget, first to last day.
\<close>

fun same_calendar_month :: "isodate \<Rightarrow> isodate \<Rightarrow> bool" where
  "same_calendar_month (ISODate y m d) (ISODate y' m' d') = (y = y' \<and> m = m')"

definition spent_in_calendar_month :: "transaction list \<Rightarrow> uuid \<Rightarrow> isodate \<Rightarrow> rat" where
  "spent_in_calendar_month transactions categoryId budgetMonth =
     sum_amount
       (filter (\<lambda>t. t_category_id t = categoryId \<and> t_type t = expense
                    \<and> same_calendar_month (t_date t) budgetMonth)
          transactions)"

text \<open>
  The month-to-date transactions as the specification words them: the transactions dated
  in the current calendar month (the year and month \<^verbatim>\<open>currentMonth\<close> names), and the sum of
  a category's expenses among them, folded as the client folds.
\<close>

definition monthToDate :: "env \<Rightarrow> transaction list \<Rightarrow> transaction list" where
  "monthToDate e transactions =
     filter (\<lambda>t. same_calendar_month (t_date t) (currentMonth_first e)) transactions"

definition monthToDateSum :: "env \<Rightarrow> transaction list \<Rightarrow> category \<Rightarrow> rat" where
  "monthToDateSum e transactions c =
     sum_amount (filter (\<lambda>t. t_category_id t = c_id c \<and> t_type t = expense)
       (monthToDate e transactions))"

section \<open>The store: references between the tables\<close>

text \<open>
  The three tables together. \<^verbatim>\<open>transactions.category_id\<close> and
  \<^verbatim>\<open>budgets.category_id\<close> are declared
  \<^verbatim>\<open>REFERENCES categories(id) ON DELETE CASCADE\<close>.
\<close>

record db =
  db_categories :: "category list"
  db_transactions :: "transaction list"
  db_budgets :: "budget list"

text \<open>
  An INSERT into \<^verbatim>\<open>transactions\<close> of a row with every column given: the policy's check,
  \<^verbatim>\<open>CHECK (amount > 0)\<close>, the primary key and the reference to \<^verbatim>\<open>categories(id)\<close>. The
  store looks the referenced category up among all rows of \<^verbatim>\<open>categories\<close>, whoever owns
  them: a foreign key is checked without row-level security, and no constraint compares
  the owner of the category with the owner of the new row.
\<close>

definition transactions_insert :: "uuid option \<Rightarrow> transaction \<Rightarrow> db \<Rightarrow> store_error + db" where
  "transactions_insert caller t d =
     (if \<not> check_ok Transactions INSERT caller (t_user_id t) then Inl RlsViolation
      else if \<not> t_amount t > 0 then Inl CheckViolation
      else if list_ex (\<lambda>x. t_id x = t_id t) (db_transactions d) then Inl UniqueViolation
      else if \<not> list_ex (\<lambda>c. c_id c = t_category_id t) (db_categories d)
        then Inl ForeignKeyViolation
      else Inr (d\<lparr>db_transactions := db_transactions d @ [t]\<rparr>))"

text \<open>
  A DELETE on \<^verbatim>\<open>categories\<close>. It removes the categories that match the condition and pass
  the policy's \<^verbatim>\<open>USING\<close>. \<^verbatim>\<open>ON DELETE CASCADE\<close> then removes every transaction and every
  budget whose \<^verbatim>\<open>category_id\<close> is a removed category: the cascade is the store's own action
  and the policies of the referencing table do not apply to it.
\<close>

definition categories_delete :: "uuid option \<Rightarrow> (category \<Rightarrow> bool) \<Rightarrow> db \<Rightarrow> db" where
  "categories_delete caller cond d =
     (let removed = filter (\<lambda>c. cond c \<and> using_ok Categories DELETE caller (c_user_id c))
                      (db_categories d)
      in \<lparr>db_categories = rls_delete Categories caller c_user_id cond (db_categories d),
          db_transactions =
            filter (\<lambda>t. \<not> list_ex (\<lambda>c. c_id c = t_category_id t) removed) (db_transactions d),
          db_budgets =
            filter (\<lambda>b. \<not> list_ex (\<lambda>c. c_id c = b_category_id b) removed) (db_budgets d)\<rparr>)"

section \<open>Calendar arithmetic\<close>

text \<open>
  The Gregorian calendar stated on its own: leap years, the length of a month, and the
  dates that exist. A \<^verbatim>\<open>date\<close> column holds only such dates.
\<close>

definition leap_year :: "int \<Rightarrow> bool" where
  "leap_year y = (4 dvd y \<and> (400 dvd y \<or> \<not> 100 dvd y))"

definition days_in_month :: "int \<Rightarrow> int \<Rightarrow> int" where
  "days_in_month y m =
     (if m = 2 then (if leap_year y then 29 else 28)
      else if m = 4 \<or> m = 6 \<or> m = 9 \<or> m = 11 then 30 else 31)"

fun valid_date :: "isodate \<Rightarrow> bool" where
  "valid_date (ISODate y m d) = (1 \<le> m \<and> m \<le> 12 \<and> 1 \<le> d \<and> d \<le> days_in_month y m)"

text \<open>
  Auxiliary functions for the proofs about \<open>days_from_civil\<close> and \<open>civil_from_days\<close>. Years
  and months are counted from March: \<open>days_before_year\<close> is the number of days from 1 March
  of year 0 to 1 March of the given year, \<open>days_before_month\<close> the number of days from
  1 March to the first of the month with the given index (March is 0), \<open>month_first\<close> the
  same count for the month with ordinal \<open>12 * year + index\<close>, and \<open>year_estimate\<close> the
  expression \<open>civil_from_days\<close> divides by 365 to find the year within a 400-year era.
\<close>

definition days_before_year :: "int \<Rightarrow> int" where
  "days_before_year Y = 365 * Y + Y div 4 - Y div 100 + Y div 400"

definition days_before_month :: "int \<Rightarrow> int" where
  "days_before_month mp = (153 * mp + 2) div 5"

definition month_first :: "int \<Rightarrow> int" where
  "month_first N = days_before_year (N div 12) + days_before_month (N mod 12)"

definition year_estimate :: "int \<Rightarrow> int" where
  "year_estimate doe = doe - doe div 1460 + doe div 36524 - doe div 146096"

section \<open>Example data\<close>

text \<open>
  Three environments: 2024-01-15 12:00 UTC in a browser on UTC; 2024-01-10 12:00 in New
  York (17:00 UTC, offset -300 minutes); 2024-01-31 12:00 in Paris (11:00 UTC, offset 60
  minutes).
\<close>

definition env_utc :: env where
  "env_utc = \<lparr>now = 1705320000000, utc_offset = 0\<rparr>"

definition env_new_york :: env where
  "env_new_york = \<lparr>now = 1704906000000, utc_offset = - 300\<rparr>"

definition env_paris :: env where
  "env_paris = \<lparr>now = 1706698800000, utc_offset = 60\<rparr>"

definition cat_A :: category where
  "cat_A = \<lparr>c_id = ''A'', c_user_id = ''u1'', c_name = ''Food'', c_type = expense,
     c_color = ''#ef4444'', c_icon = ''Utensils''\<rparr>"


definition cat_S :: category where
  "cat_S = \<lparr>c_id = ''S'', c_user_id = ''u1'', c_name = ''Salary'', c_type = income,
     c_color = ''#22c55e'', c_icon = ''Briefcase''\<rparr>"

definition cat_other_user :: category where
  "cat_other_user = \<lparr>c_id = ''Z'', c_user_id = ''u2'', c_name = ''Rent'', c_type = expense,
     c_color = ''#3b82f6'', c_icon = ''Home''\<rparr>"



definition tx_jan10_50 :: transaction where
  "tx_jan10_50 = \<lparr>t_id = ''t6'', t_user_id = ''u1'', t_category_id = ''A'', t_amount = 50,
     t_description = ''dinner'', t_date = ISODate 2024 1 10, t_type = expense\<rparr>"

definition tx_jan31_80 :: transaction where
  "tx_jan31_80 = \<lparr>t_id = ''t7'', t_user_id = ''u1'', t_category_id = ''A'', t_amount = 80,
     t_description = ''party'', t_date = ISODate 2024 1 31, t_type = expense\<rparr>"

definition budget_A_100 :: budget where
  "budget_A_100 = \<lparr>b_id = ''b1'', b_user_id = ''u1'', b_category_id = ''A'', b_amount = 100,
     b_month = ISODate 2024 1 1\<rparr>"

definition budget_A_50 :: budget where
  "budget_A_50 = \<lparr>b_id = ''b2'', b_user_id = ''u1'', b_category_id = ''A'', b_amount = 50,
     b_month = ISODate 2024 1 1\<rparr>"

definition budget_form_filled :: budget_form where
  "budget_form_filled = \<lparr>bf_showForm = True, bf_categoryId = ''A'', bf_amount = ''50'',
     bf_month = ''2024-01'', bf_loading = False\<rparr>"

definition category_form_filled :: category_form where
  "category_form_filled = \<lparr>cf_showForm = True, cf_name = ''Food'', cf_type = income,
     cf_color = ''#22c55e'', cf_icon = ''DollarSign'', cf_loading = False\<rparr>"

definition transaction_form_filled :: transaction_form where
  "transaction_form_filled = \<lparr>tf_type = expense, tf_amount = ''50'',
     tf_description = ''groceries'', tf_categoryId = ''A'', tf_date = ''2024-01-05'',
     tf_loading = False, tf_error = []\<rparr>"

text \<open>
  Expenses of category B for the Paris example: 10 on 6 January and 100 on 31 January.
\<close>

definition tx_B_10 :: transaction where
  "tx_B_10 = \<lparr>t_id = ''t8'', t_user_id = ''u1'', t_category_id = ''B'', t_amount = 10,
     t_description = ''bus'', t_date = ISODate 2024 1 6, t_type = expense\<rparr>"

definition tx_B_jan31_100 :: transaction where
  "tx_B_jan31_100 = \<lparr>t_id = ''t9'', t_user_id = ''u1'', t_category_id = ''B'', t_amount = 100,
     t_description = ''rail pass'', t_date = ISODate 2024 1 31, t_type = expense\<rparr>"

text \<open>
  A store in which user u2 owns category Z, and a transaction of user u1 that points to
  that category.
\<close>

definition db_category_of_u2 :: db where
  "db_category_of_u2 =
     \<lparr>db_categories = [cat_other_user], db_transactions = [], db_budgets = []\<rparr>"

definition tx_u1_in_Z :: transaction where
  "tx_u1_in_Z = \<lparr>t_id = ''t10'', t_user_id = ''u1'', t_category_id = ''Z'', t_amount = 20,
     t_description = ''shared rent'', t_date = ISODate 2024 1 12, t_type = expense\<rparr>"

section \<open>Sums\<close>

lemma foldl_amount_shift:
  "foldl (\<lambda>sum t. sum + t_amount t) a ts = a + sum_list (map t_amount ts)"
  by (induction ts arbitrary: a) (simp_all add: add.assoc)

lemma sum_amount_sum_list: "sum_amount ts = sum_list (map t_amount ts)"
  by (simp add: sum_amount_def foldl_amount_shift)

lemma sum_amount_Nil: "sum_amount [] = 0"
  by (simp add: sum_amount_def)

lemma sum_amount_Cons: "sum_amount (t # ts) = t_amount t + sum_amount ts"
  by (simp add: sum_amount_sum_list)

lemma sum_amount_nonneg:
  assumes "\<forall>t\<in>set ts. 0 \<le> t_amount t"
  shows "0 \<le> sum_amount ts"
  using assms by (induction ts) (simp_all add: sum_amount_Nil sum_amount_Cons)

section \<open>Balance\<close>

text \<open>
  C1. The balance is \<open>totalIncome - totalExpenses\<close>; each total is the sum of the amounts
  of the transactions of its kind; when every amount is positive both totals are
  non-negative. The balance itself is not clamped: the witness has a negative one.
\<close>

theorem balance_is_income_minus_expenses:
  assumes "\<forall>t\<in>set transactions. 0 < t_amount t"
  shows "balance transactions = totalIncome transactions - totalExpenses transactions
    \<and> totalIncome transactions =
          sum_list (map t_amount (filter (\<lambda>t. t_type t = income) transactions))
    \<and> totalExpenses transactions =
          sum_list (map t_amount (filter (\<lambda>t. t_type t = expense) transactions))
    \<and> 0 \<le> totalIncome transactions
    \<and> 0 \<le> totalExpenses transactions"
proof -
  have b: "balance transactions = totalIncome transactions - totalExpenses transactions"
    by (simp add: balance_def)
  have i: "totalIncome transactions =
          sum_list (map t_amount (filter (\<lambda>t. t_type t = income) transactions))"
    by (simp add: totalIncome_def sum_amount_sum_list)
  have e: "totalExpenses transactions =
          sum_list (map t_amount (filter (\<lambda>t. t_type t = expense) transactions))"
    by (simp add: totalExpenses_def sum_amount_sum_list)
  from assms have pos: "\<forall>t\<in>set (filter P transactions). 0 \<le> t_amount t" for P
    by (simp add: less_imp_le)
  have i0: "0 \<le> totalIncome transactions"
    unfolding totalIncome_def by (rule sum_amount_nonneg [OF pos])
  have e0: "0 \<le> totalExpenses transactions"
    unfolding totalExpenses_def by (rule sum_amount_nonneg [OF pos])
  from b i e i0 e0 show ?thesis by blast
qed

theorem balance_is_income_minus_expenses_witness:
  "totalIncome [tx_expense_50, tx_expense_30] = 0
   \<and> totalExpenses [tx_expense_50, tx_expense_30] = 80
   \<and> balance [tx_expense_50, tx_expense_30] = - 80
   \<and> 0 \<le> totalIncome [tx_expense_50, tx_expense_30]
   \<and> 0 \<le> totalExpenses [tx_expense_50, tx_expense_30]"
proof -
  have pos: "\<forall>t\<in>set [tx_expense_50, tx_expense_30]. 0 < t_amount t"
    by (simp add: tx_expense_50_def tx_expense_30_def)
  show ?thesis
    using balance_is_income_minus_expenses [OF pos]
    by (simp add: tx_expense_50_def tx_expense_30_def)
qed

section \<open>Top expenses of the month\<close>



lemma set_expensesByCategory:
  "set (expensesByCategory e cs ts)
     \<subseteq> {i \<in> set (categoryTotals e cs ts). 0 < total i}"
proof -
  have "set (expensesByCategory e cs ts)
          \<subseteq> set (sort_key (\<lambda>i. - total i) (filter (\<lambda>i. total i > 0) (categoryTotals e cs ts)))"
    unfolding expensesByCategory_def by (rule set_take_subset)
  then show ?thesis by auto
qed

lemma categoryTotals_member:
  assumes "i \<in> set (categoryTotals e cs ts)"
  shows "category i \<in> set cs \<and> c_type (category i) = expense
         \<and> i = categoryTotal e ts (category i)"
  using assms by (auto simp: categoryTotals_def categoryTotal_def)

lemma expensesByCategory_member:
  assumes "i \<in> set (expensesByCategory e cs ts)"
  shows "0 < total i \<and> category i \<in> set cs \<and> c_type (category i) = expense
         \<and> i = categoryTotal e ts (category i)"
proof -
  from assms set_expensesByCategory [of e cs ts]
  have "i \<in> set (categoryTotals e cs ts)" and "0 < total i" by auto
  with categoryTotals_member [of i e cs ts] show ?thesis by blast
qed




section \<open>The percentage of the month's expenses\<close>

lemma totalMonthExpenses_month_expenses:
  "totalMonthExpenses e ts = sum_list (map t_amount (month_expenses e ts))"
  by (simp add: totalMonthExpenses_def month_expenses_def sum_amount_sum_list)

lemma total_categoryTotal:
  "total (categoryTotal e ts c) =
     sum_list (map t_amount (filter (\<lambda>t. t_category_id t = c_id c) (month_expenses e ts)))"
proof -
  have "filter (\<lambda>t. t_category_id t = c_id c \<and> t_type t = expense) (monthTransactions e ts)
        = filter (\<lambda>t. t_category_id t = c_id c) (month_expenses e ts)"
    by (simp add: month_expenses_def conj_commute)
  then show ?thesis
    by (simp add: categoryTotal_def sum_amount_sum_list)
qed

lemma sum_list_filter_le:
  fixes f :: "'a \<Rightarrow> rat"
  assumes "\<forall>x\<in>set xs. 0 \<le> f x"
  shows "sum_list (map f (filter P xs)) \<le> sum_list (map f xs)"
  using assms by (induction xs) (auto intro: add_increasing)

lemma total_le_totalMonthExpenses:
  assumes "\<forall>t\<in>set ts. 0 < t_amount t"
  shows "total (categoryTotal e ts c) \<le> totalMonthExpenses e ts"
proof -
  have "\<forall>t\<in>set (month_expenses e ts). 0 \<le> t_amount t"
    using assms by (auto simp: month_expenses_def monthTransactions_def less_imp_le)
  then show ?thesis
    unfolding total_categoryTotal totalMonthExpenses_month_expenses
    by (rule sum_list_filter_le)
qed

lemma js_div_pos: "0 < b \<Longrightarrow> js_div a b = Some (a / b)"
  by (simp add: js_div_def)

text \<open>
  C4. With the amounts the store admits (\<^verbatim>\<open>CHECK (amount > 0)\<close>): when the month's
  expenses total 0 the panel shows "No expenses this month" and computes no percentage;
  whenever rows are shown the divisor \<open>totalMonthExpenses\<close> is greater than 0 and every
  row's percentage is the finite number \<open>total / totalMonthExpenses * 100\<close>.
\<close>

theorem percentage_divisor_positive:
  assumes "\<forall>t\<in>set ts. 0 < t_amount t"
  shows "(totalMonthExpenses e ts = 0 \<longrightarrow> topExpensesPanel e cs ts = NoExpenses)
       \<and> (\<forall>rows. topExpensesPanel e cs ts = Rows rows \<longrightarrow>
             0 < totalMonthExpenses e ts
             \<and> (\<forall>r\<in>set rows. percentage r
                   = Some (total (row_item r) / totalMonthExpenses e ts * 100)))"
proof -
  have pos: "0 < totalMonthExpenses e ts" if "expensesByCategory e cs ts \<noteq> []"
  proof -
    from that obtain i where i: "i \<in> set (expensesByCategory e cs ts)"
      by (cases "expensesByCategory e cs ts") auto
    from expensesByCategory_member [OF i]
    have "0 < total i" and "i = categoryTotal e ts (category i)" by blast+
    then have "0 < total (categoryTotal e ts (category i))" by simp
    also have "\<dots> \<le> totalMonthExpenses e ts"
      by (rule total_le_totalMonthExpenses [OF assms])
    finally show ?thesis .
  qed
  have a: "totalMonthExpenses e ts = 0 \<longrightarrow> topExpensesPanel e cs ts = NoExpenses"
  proof
    assume z: "totalMonthExpenses e ts = 0"
    have "expensesByCategory e cs ts = []"
    proof (rule ccontr)
      assume "expensesByCategory e cs ts \<noteq> []"
      from pos [OF this] z show False by simp
    qed
    then show "topExpensesPanel e cs ts = NoExpenses"
      by (simp add: topExpensesPanel_def)
  qed
  have b: "\<forall>rows. topExpensesPanel e cs ts = Rows rows \<longrightarrow>
             0 < totalMonthExpenses e ts
             \<and> (\<forall>r\<in>set rows. percentage r
                   = Some (total (row_item r) / totalMonthExpenses e ts * 100))"
  proof (intro allI impI)
    fix rows assume r: "topExpensesPanel e cs ts = Rows rows"
    then have ne: "expensesByCategory e cs ts \<noteq> []"
      by (auto simp: topExpensesPanel_def split: if_splits)
    note p = pos [OF ne]
    from r ne have rows: "rows = map (\<lambda>i. \<lparr>row_item = i,
                            percentage = map_option (\<lambda>q. q * 100)
                              (js_div (total i) (totalMonthExpenses e ts))\<rparr>)
                   (expensesByCategory e cs ts)"
      by (simp add: topExpensesPanel_def)
    have "\<forall>r\<in>set rows. percentage r
                   = Some (total (row_item r) / totalMonthExpenses e ts * 100)"
      unfolding rows using p by (auto simp: js_div_pos)
    with p show "0 < totalMonthExpenses e ts
             \<and> (\<forall>r\<in>set rows. percentage r
                   = Some (total (row_item r) / totalMonthExpenses e ts * 100))" by blast
  qed
  from a b show ?thesis by blast
qed

theorem percentage_divisor_positive_witness:
  "topExpensesPanel env_utc [cat_A, cat_S] [tx_expense_50, tx_income_200, tx_expense_30]
     = Rows [\<lparr>row_item = \<lparr>category = cat_A, total = 80\<rparr>, percentage = Some 100\<rparr>]
   \<and> 0 < totalMonthExpenses env_utc [tx_expense_50, tx_income_200, tx_expense_30]
   \<and> totalMonthExpenses env_utc [tx_income_200] = 0
   \<and> topExpensesPanel env_utc [cat_A, cat_S] [tx_income_200] = NoExpenses"
proof -
  have pos3: "\<forall>t\<in>set [tx_expense_50, tx_income_200, tx_expense_30]. 0 < t_amount t"
    by (simp add: tx_expense_50_def tx_income_200_def tx_expense_30_def)
  have pos1: "\<forall>t\<in>set [tx_income_200]. 0 < t_amount t"
    by (simp add: tx_income_200_def)
  have rows: "topExpensesPanel env_utc [cat_A, cat_S] [tx_expense_50, tx_income_200, tx_expense_30]
     = Rows [\<lparr>row_item = \<lparr>category = cat_A, total = 80\<rparr>, percentage = Some 100\<rparr>]"
    by code_simp
  have zero: "totalMonthExpenses env_utc [tx_income_200] = 0"
    by code_simp
  from rows zero
    percentage_divisor_positive [OF pos3, of env_utc "[cat_A, cat_S]"]
    percentage_divisor_positive [OF pos1, of env_utc "[cat_A, cat_S]"]
  show ?thesis by blast
qed

section \<open>Per-category sums against the month's total\<close>









section \<open>The last seven days\<close>

lemma local_day_window:
  assumes same: "local_day e x = local_day e (setDate_back n k)" and k: "k \<le> 6"
  shows "setDate_back n 30 \<le> x"
proof -
  define off where "off = utc_offset e * msPerMinute"
  define a where "a = x + off"
  define b where "b = n - k * 86400000 + off"
  from same have q: "a div 86400000 = b div 86400000"
    by (simp add: local_day_def setDate_back_def msPerDay_def a_def b_def off_def)
  have a: "a = a div 86400000 * 86400000 + a mod 86400000"
    by simp
  have b: "b = b div 86400000 * 86400000 + b mod 86400000"
    by simp
  have "0 \<le> a mod 86400000" and "b mod 86400000 < 86400000"
    by simp_all
  with a b q have "b - 86400000 < a"
    by linarith
  with k have "n - 30 * 86400000 \<le> x"
    by (simp add: a_def b_def)
  then show ?thesis
    by (simp add: setDate_back_def msPerDay_def)
qed

lemma day_filter_last30Days:
  assumes "i < 7"
  shows "filter (\<lambda>t. toDateString e (Date_parse (t_date t))
                        = toDateString e (setDate_back (now e) (6 - int i)))
           (last30Days e ts)
         = filter (\<lambda>t. toDateString e (Date_parse (t_date t))
                        = toDateString e (setDate_back (now e) (6 - int i))) ts"
proof -
  have "setDate_back (now e) 30 \<le> Date_parse (t_date t)"
    if "toDateString e (Date_parse (t_date t))
          = toDateString e (setDate_back (now e) (6 - int i))" for t
    using that by (intro local_day_window [of e _ "now e" "6 - int i"])
      (simp_all add: toDateString_def)
  then show ?thesis
    unfolding last30Days_def filter_filter
    by (intro filter_cong) auto
qed

lemma dayEntry_last30Days:
  assumes "i < 7"
  shows "dayEntry e (last30Days e ts) i = dayEntry e ts i"
  unfolding dayEntry_def Let_def day_filter_last30Days [OF assms] ..

text \<open>
  C10. The seven entries computed from the transactions of the last thirty days are the
  entries computed from all transactions: a transaction that falls on one of the seven
  days is never older than thirty days.
\<close>

theorem dailyData_prefilter_harmless:
  "dailyData e transactions = dailyData_direct e transactions"
  unfolding dailyData_def dailyData_direct_def
  by (rule map_cong) (simp_all add: dayEntry_last30Days)

lemma length_dailyData: "length (dailyData e transactions) = 7"
  by (simp add: dailyData_def)

lemma local_day_setDate_back:
  "local_day e (setDate_back n k) = local_day e n - k"
proof -
  have "(n - k * 86400000 + utc_offset e * msPerMinute) div 86400000
        = (n + utc_offset e * msPerMinute + (- k) * 86400000) div 86400000"
    by (simp add: algebra_simps)
  also have "\<dots> = (- k) + (n + utc_offset e * msPerMinute) div 86400000"
    by (rule div_mult_self1) simp
  finally show ?thesis
    by (simp add: local_day_def setDate_back_def msPerDay_def)
qed

text \<open>
  The days of the series are the seven local calendar days that end on the current one,
  oldest first.
\<close>

lemma dailyData_days:
  "map (\<lambda>i. local_day e (setDate_back (now e) (6 - int i))) [0..<7]
   = map (\<lambda>i. local_day e (now e) - 6 + int i) [0..<7]"
  by (simp add: local_day_setDate_back)

lemma local_day_Date_parse:
  assumes "0 \<le> utc_offset e" and "utc_offset e < 1440"
  shows "local_day e (Date_parse d) = day_number d"
proof (cases d)
  case (ISODate y m dd)
  from assms have "0 \<le> utc_offset e * 60000" and "utc_offset e * 60000 < 86400000"
    by simp_all
  then have "(days_from_civil y m dd * 86400000 + utc_offset e * 60000) div 86400000
             = days_from_civil y m dd"
    by (simp add: div_pos_pos_trivial)
  with ISODate show ?thesis
    by (simp add: local_day_def msPerDay_def msPerMinute_def)
qed

text \<open>
  East of Greenwich and on UTC (offsets from 0 up to, not including, 24 hours) each entry
  sums the transactions dated on its calendar day, as the specification words it.
\<close>

lemma dailyData_by_calendar_day_east:
  assumes "0 \<le> utc_offset e" and "utc_offset e < 1440"
  shows "dailyData e transactions = dailyData_by_calendar_day e transactions"
proof -
  have "dayEntry e (last30Days e transactions) i = dayEntry_by_calendar_day e transactions i"
    if "i < 7" for i
    unfolding dayEntry_last30Days [OF that]
    by (simp add: dayEntry_def dayEntry_by_calendar_day_def toDateString_def Let_def
        local_day_setDate_back local_day_Date_parse [OF assms])
  then show ?thesis
    unfolding dailyData_def dailyData_by_calendar_day_def
    by (intro map_cong) simp_all
qed

text \<open>
  C6. In New York on 2024-01-10 at noon, with one expense of 50 dated 2024-01-10: the
  series has seven entries, Thursday 4 January to Wednesday 10 January, and the expense
  stands in the entry of Tuesday 9 January. \<^verbatim>\<open>new Date('2024-01-10')\<close> is midnight UTC,
  which is 19:00 of 9 January in New York, and \<^verbatim>\<open>toDateString()\<close> prints the local day.
  By calendar day the expense belongs to the last entry.
\<close>

theorem dailyData_west_of_utc_shifts_a_day:
  "map d_date (dailyData env_new_york [tx_jan10_50])
     = [''Thu'', ''Fri'', ''Sat'', ''Sun'', ''Mon'', ''Tue'', ''Wed'']
   \<and> map d_expenses (dailyData env_new_york [tx_jan10_50]) = [0, 0, 0, 0, 0, 50, 0]
   \<and> map d_expenses (dailyData_by_calendar_day env_new_york [tx_jan10_50])
        = [0, 0, 0, 0, 0, 0, 50]"
  by code_simp

section \<open>Budgets\<close>

text \<open>
  Given the amount \<open>getSpentAmount\<close> returns, the card follows the formulas: the percentage
  is \<open>spent / amount * 100\<close>, only the bar's width is cut at 100, the flag is
  \<open>spent > amount\<close>, and the overage is shown exactly when the flag is set.
\<close>

lemma budgetCard_formulas:
  assumes "0 < b_amount b"
  shows "bc_spent (budgetCard e ts b) = getSpentAmount e ts (b_category_id b) (b_month b)
    \<and> bc_percentage (budgetCard e ts b) = Some (bc_spent (budgetCard e ts b) / b_amount b * 100)
    \<and> bc_width (budgetCard e ts b)
         = Some (min (bc_spent (budgetCard e ts b) / b_amount b * 100) 100)
    \<and> bc_isOverBudget (budgetCard e ts b) = (bc_spent (budgetCard e ts b) > b_amount b)
    \<and> bc_overBy (budgetCard e ts b)
         = (if bc_isOverBudget (budgetCard e ts b)
            then Some (bc_spent (budgetCard e ts b) - b_amount b) else None)"
  using assms by (simp add: budgetCard_def Let_def js_div_def)

text \<open>
  The range of January 2024 as \<^verbatim>\<open>getSpentAmount\<close> and \<^verbatim>\<open>Stats\<close> build it. On UTC it runs
  from 1 January to 31 January, both at midnight UTC. In Paris it ends an hour before
  31 January begins in UTC. In New York it ends on 31 December 2023, before it starts.
\<close>

lemma january_range_by_time_zone:
  "monthStart env_utc = Date_parse (ISODate 2024 1 1)
   \<and> monthEnd env_utc = Date_parse (ISODate 2024 1 31)
   \<and> monthStart env_paris = Date_parse (ISODate 2024 1 1)
   \<and> monthEnd env_paris = Date_parse (ISODate 2024 1 31) - 60 * msPerMinute
   \<and> monthStart env_new_york = Date_parse (ISODate 2024 1 1)
   \<and> monthEnd env_new_york = Date_parse (ISODate 2023 12 31) + 300 * msPerMinute
   \<and> monthEnd env_new_york < monthStart env_new_york"
  by code_simp

text \<open>
  C2. The amount spent is not the sum over the budget's calendar month in every time zone.
  \<^verbatim>\<open>new Date(budgetMonth)\<close> is midnight UTC of the first day, while
  \<^verbatim>\<open>new Date(monthStart.getFullYear(), monthStart.getMonth() + 1, 0)\<close> is built from the
  local year and month and is midnight local time. On UTC the two expenses of 2024-01-05
  give spent = 80 for the January budget of 100, as the specification's scenario says. In
  New York the first of January at midnight UTC is still 31 December, the range ends
  before it starts, and spent is 0. In Paris the range ends at 23:00 UTC of 30 January: an
  expense of 80 dated 2024-01-31 is not counted and a budget of 50 is not over budget.
\<close>

theorem getSpentAmount_depends_on_time_zone:
  "getSpentAmount env_utc [tx_expense_50, tx_income_200, tx_expense_30] ''A'' (ISODate 2024 1 1) = 80
   \<and> spent_in_calendar_month [tx_expense_50, tx_income_200, tx_expense_30] ''A'' (ISODate 2024 1 1) = 80
   \<and> getSpentAmount env_new_york [tx_expense_50, tx_income_200, tx_expense_30] ''A''
        (ISODate 2024 1 1) = 0
   \<and> bc_percentage (budgetCard env_new_york [tx_expense_50, tx_income_200, tx_expense_30]
        budget_A_100) = Some 0
   \<and> spent_in_calendar_month [tx_jan31_80] ''A'' (ISODate 2024 1 1) = 80
   \<and> getSpentAmount env_paris [tx_jan31_80] ''A'' (ISODate 2024 1 1) = 0
   \<and> bc_isOverBudget (budgetCard env_paris [tx_jan31_80] budget_A_50) = False
   \<and> bc_overBy (budgetCard env_utc [tx_jan31_80] budget_A_50) = Some 30"
  by code_simp

section \<open>Submitting the forms\<close>

lemma TransactionForm_handleSubmit_rejected:
  "TransactionForm_handleSubmit (Some err) st
     = (st\<lparr>tf_error := message err, tf_loading := False\<rparr>, [])"
  by (simp add: TransactionForm_handleSubmit_def)

lemma TransactionForm_handleSubmit_accepted:
  "TransactionForm_handleSubmit None st = (st\<lparr>tf_error := [], tf_loading := True\<rparr>, [OnSuccess])"
  by (simp add: TransactionForm_handleSubmit_def)

lemma message_not_empty: "message err \<noteq> []"
  by (cases err) simp_all

text \<open>
  A rejected transaction is shown to the user with the store's message, the fields keep
  what was typed, the submit button is enabled again and no callback runs.
\<close>

lemma TransactionForm_rejected_keeps_form:
  assumes "TransactionForm_handleSubmit (Some err) st = (st', calls)"
  shows "calls = [] \<and> tf_loading st' = False
       \<and> TransactionForm_shown_error st' = Some (message err)
       \<and> tf_type st' = tf_type st \<and> tf_amount st' = tf_amount st
       \<and> tf_description st' = tf_description st \<and> tf_categoryId st' = tf_categoryId st
       \<and> tf_date st' = tf_date st"
  using assms
  by (auto simp: TransactionForm_handleSubmit_rejected TransactionForm_shown_error_def
      message_not_empty)

text \<open>The other two handlers end the same way whatever the store answered.\<close>

lemma CategoryManager_handleSubmit_ignores_response:
  "CategoryManager_handleSubmit response st = CategoryManager_handleSubmit None st"
  by (simp add: CategoryManager_handleSubmit_def)

lemma BudgetManager_handleSubmit_ignores_response:
  "BudgetManager_handleSubmit thisMonth response st = BudgetManager_handleSubmit thisMonth None st"
  by (simp add: BudgetManager_handleSubmit_def)

section \<open>One budget per owner, category and month\<close>

lemma same_triple_sym: "same_triple x y = same_triple y x"
  by (auto simp: same_triple_def)

lemma triples_unique_append:
  "triples_unique (rows @ [b]) = (triples_unique rows \<and> \<not> list_ex (same_triple b) rows)"
proof (induction rows)
  case Nil
  show ?case by simp
next
  case (Cons r rows)
  have "same_triple r b = same_triple b r"
    by (rule same_triple_sym)
  with Cons show ?case
    by (auto simp: list_ex_iff)
qed

text \<open>The store rejects a second budget for the same triple, and keeps the triples unique.\<close>

lemma budgets_insert_duplicate_rejected:
  assumes "list_ex (same_triple b) rows"
  shows "\<exists>err. budgets_insert caller cs b rows = Inl err"
  using assms by (simp add: budgets_insert_def)

lemma budgets_insert_keeps_unique:
  assumes "triples_unique rows" and "budgets_insert caller cs b rows = Inr rows'"
  shows "triples_unique rows' \<and> rows' = rows @ [b]"
proof -
  from assms(2) have "rows' = rows @ [b]" and "\<not> list_ex (same_triple b) rows"
    by (auto simp: budgets_insert_def split: if_splits)
  with assms(1) show ?thesis
    by (simp add: triples_unique_append)
qed

text \<open>
  C7. User u1 has a budget for category A in January 2024 and submits the budget form for
  the same category and month. The store rejects the row for the unique constraint.
  \<^verbatim>\<open>BudgetManager.handleSubmit\<close> does not read the answer: the form is emptied and
  closed and \<^verbatim>\<open>onUpdate\<close> runs, exactly as after an accepted insert, and the component
  has no error state in which a message could be shown.
\<close>

theorem budget_duplicate_is_not_surfaced:
  "budgets_insert (Some ''u1'') [cat_A] budget_A_50 [budget_A_100] = Inl UniqueViolation
   \<and> BudgetManager_handleSubmit ''2024-01'' (Some UniqueViolation) budget_form_filled
       = (\<lparr>bf_showForm = False, bf_categoryId = [], bf_amount = [], bf_month = ''2024-01'',
           bf_loading = False\<rparr>, [OnUpdate])
   \<and> BudgetManager_handleSubmit ''2024-01'' None budget_form_filled
       = (\<lparr>bf_showForm = False, bf_categoryId = [], bf_amount = [], bf_month = ''2024-01'',
           bf_loading = False\<rparr>, [OnUpdate])"
  by code_simp

text \<open>
  C8. The store rejects the insert of a category. \<^verbatim>\<open>CategoryManager.handleSubmit\<close>
  empties the form, closes it and calls \<^verbatim>\<open>onUpdate\<close>, as it does after an accepted
  insert, and so does \<^verbatim>\<open>BudgetManager.handleSubmit\<close>. Only
  \<^verbatim>\<open>TransactionForm.handleSubmit\<close> keeps the form open with what was typed, shows the
  message and enables the button again.
\<close>

theorem rejected_category_closes_the_form:
  "CategoryManager_handleSubmit (Some RlsViolation) category_form_filled
     = (\<lparr>cf_showForm = False, cf_name = [], cf_type = expense, cf_color = COLORS_0,
         cf_icon = ICONS_0, cf_loading = False\<rparr>, [OnUpdate])
   \<and> CategoryManager_handleSubmit None category_form_filled
     = (\<lparr>cf_showForm = False, cf_name = [], cf_type = expense, cf_color = COLORS_0,
         cf_icon = ICONS_0, cf_loading = False\<rparr>, [OnUpdate])
   \<and> BudgetManager_handleSubmit ''2024-02'' (Some CheckViolation) budget_form_filled
     = (\<lparr>bf_showForm = False, bf_categoryId = [], bf_amount = [], bf_month = ''2024-02'',
         bf_loading = False\<rparr>, [OnUpdate])
   \<and> TransactionForm_handleSubmit (Some RlsViolation) transaction_form_filled
     = (transaction_form_filled\<lparr>tf_error := message RlsViolation\<rparr>, [])"
  by (simp add: CategoryManager_handleSubmit_def BudgetManager_handleSubmit_def
      TransactionForm_handleSubmit_def category_form_filled_def budget_form_filled_def
      transaction_form_filled_def)

section \<open>Row-level security\<close>








end
